theory Spec2Isabelle
  imports Complex_Main
begin

text \<open>
  A model of the authentication core of the Casting Agency service: the functions of
  \<open>auth.py\<close> (\<open>get_token_auth_header\<close>, \<open>check_permissions\<close>, \<open>verify_decode_jwt\<close>,
  \<open>requires_auth\<close>) and the \<open>AuthError\<close> handler of \<open>app.py\<close>. A function returns
  \<open>Inr\<close> of its value or \<open>Inl\<close> of the exception it raises.
\<close>

section \<open>Python values\<close>

text \<open>
  The values the auth code handles are decoded JSON documents (the JWKS document, the
  token header, the claims payload) and the literal dictionaries it builds itself.
  A dictionary is an association list with pairwise distinct keys, in insertion order.
  A number carries its numeric value: Python compares \<open>int\<close> and \<open>float\<close> by value and
  the code never asks for the type of a number (the non-numbers NaN and Infinity are
  not represented).
\<close>

datatype json =
    JNull
  | JBool bool
  | JNum rat
  | JStr string
  | JList "json list"
  | JDict "(string \<times> json) list"

type_synonym dict = "(string \<times> json) list"

text \<open>Python's \<open>==\<close> on these values: \<open>bool\<close> is a subclass of \<open>int\<close> (\<open>True == 1\<close>),
  lists compare elementwise, dictionaries compare as mappings (order is irrelevant).\<close>

fun py_eq :: "json \<Rightarrow> json \<Rightarrow> bool" where
  "py_eq JNull JNull = True"
| "py_eq (JBool a) (JBool b) = (a = b)"
| "py_eq (JBool a) (JNum r) = (r = (if a then 1 else 0))"
| "py_eq (JNum r) (JBool a) = (r = (if a then 1 else 0))"
| "py_eq (JNum r) (JNum s) = (r = s)"
| "py_eq (JStr a) (JStr b) = (a = b)"
| "py_eq (JList xs) (JList ys) = list_all2 py_eq xs ys"
| "py_eq (JDict a) (JDict b) =
     (length a = length b \<and>
      list_all (\<lambda>(k, v). case map_of b k of None \<Rightarrow> False | Some w \<Rightarrow> py_eq v w) a)"
| "py_eq _ _ = False"

text \<open>\<open>d.get(k)\<close>: the value stored under \<open>k\<close>, \<open>None\<close> when there is none.\<close>

definition py_get :: "dict \<Rightarrow> string \<Rightarrow> json" where
  "py_get d k = (case map_of d k of None \<Rightarrow> JNull | Some v \<Rightarrow> v)"

text \<open>\<open>d.get(k, default)\<close>.\<close>

definition py_get_default :: "dict \<Rightarrow> string \<Rightarrow> json \<Rightarrow> json" where
  "py_get_default d k dflt = (case map_of d k of None \<Rightarrow> dflt | Some v \<Rightarrow> v)"

text \<open>\<open>x in xs\<close> for a list \<open>xs\<close>: some element equals \<open>x\<close>.\<close>

definition py_in :: "json \<Rightarrow> json list \<Rightarrow> bool" where
  "py_in x xs = list_ex (\<lambda>e. py_eq e x) xs"

section \<open>Python strings\<close>

text \<open>
  A header value reaches the application through WSGI as a string of code points
  0 to 255 (ISO-8859-1), so a \<open>char\<close> is one Python character here; every other
  string is only compared for equality.
  \<open>is_space\<close> is the set of those code points on which \<open>str.split()\<close> splits;
  \<open>lower_char\<close> is \<open>str.lower()\<close> on one such character.
\<close>

definition is_space :: "char \<Rightarrow> bool" where
  "is_space c = (of_char c \<in> {9, 10, 11, 12, 13, 28, 29, 30, 31, 32, 133, 160 :: nat})"

definition lower_char :: "char \<Rightarrow> char" where
  "lower_char c =
     (let n = (of_char c :: nat) in
      if (65 \<le> n \<and> n \<le> 90) \<or> (192 \<le> n \<and> n \<le> 222 \<and> n \<noteq> 215)
      then char_of (n + 32) else c)"

definition lower :: "string \<Rightarrow> string" where
  "lower s = map lower_char s"

text \<open>\<open>s.split()\<close>: the maximal runs of non-whitespace characters, in order.
  \<open>w\<close> is the word being read.\<close>

fun split_from :: "string \<Rightarrow> string \<Rightarrow> string list" where
  "split_from w [] = (if w = [] then [] else [w])"
| "split_from w (c # cs) =
     (if is_space c then (if w = [] then split_from [] cs else w # split_from [] cs)
      else split_from (w @ [c]) cs)"

definition split :: "string \<Rightarrow> string list" where
  "split s = split_from [] s"

section \<open>Exceptions\<close>

text \<open>
  \<open>AuthError(error, status_code)\<close> is the structured error of \<open>auth.py\<close>. The other
  constructors are the exceptions that leave the auth functions unstructured: those
  Python raises itself, and those of the libraries (python-jose, requests).
\<close>

datatype lib_exception =
    JWTError
  | ExpiredSignatureError
  | JWTClaimsError
  | OtherException string

datatype exception =
    AuthError (error: dict) (status_code: int)
  | IndexError
  | AttributeError
  | TypeError
  | Raised lib_exception

definition auth_error :: "string \<Rightarrow> string \<Rightarrow> int \<Rightarrow> exception" where
  "auth_error code description status =
     AuthError [(''code'', JStr code), (''description'', JStr description)] status"

section \<open>TokenExtractor: \<open>get_token_auth_header\<close>\<close>

text \<open>\<open>request.headers\<close>, read by \<open>request.headers.get("Authorization", None)\<close>: the
  value stored under the header's name, if the request has the header.\<close>

type_synonym headers = "string \<rightharpoonup> string"

definition get_token_auth_header :: "headers \<Rightarrow> exception + string" where
  "get_token_auth_header hs =
     (case hs ''Authorization'' of
        None \<Rightarrow>
          Inl (auth_error ''authorization_header_missing''
                 ''Authorization header is expected.'' 401)
      | Some auth \<Rightarrow>
          if auth = [] then
            Inl (auth_error ''authorization_header_missing''
                   ''Authorization header is expected.'' 401)
          else
            (let parts = split auth in
             if parts = [] then Inl IndexError
             else if lower (hd parts) \<noteq> ''bearer'' then
               Inl (auth_error ''invalid_header''
                      ''Authorization header must start with Bearer.'' 401)
             else if length parts = 1 then
               Inl (auth_error ''invalid_header'' ''Token not found.'' 401)
             else if length parts > 2 then
               Inl (auth_error ''invalid_header''
                      ''Authorization header must be Bearer token.'' 401)
             else Inr (parts ! 1)))"

section \<open>PermissionChecker: \<open>check_permissions\<close>\<close>

definition check_permissions :: "string \<Rightarrow> dict \<Rightarrow> exception + bool" where
  "check_permissions permission payload =
     (case py_get_default payload ''permissions'' (JList []) of
        JList permissions \<Rightarrow>
          if \<not> py_in (JStr permission) permissions then
            Inl (auth_error ''unauthorized'' ''Permission not found.'' 403)
          else Inr True
      | _ \<Rightarrow>
          Inl (auth_error ''invalid_claims'' ''Permissions claim must be a list.'' 400))"

section \<open>Configuration and collaborators\<close>

text \<open>
  \<open>AUTH0_DOMAIN\<close>, \<open>ALGORITHMS\<close> and \<open>API_AUDIENCE\<close> are the module constants read from
  the process environment; \<open>request_headers\<close> is \<open>flask.request.headers\<close>. The three
  functions are the library calls the verifier makes, each returning its value or the
  exception it raises:
  \<^item> \<open>requests_get_json url\<close> is \<open>requests.get(url, timeout=10).json()\<close>;
  \<^item> \<open>jwt_get_unverified_header token\<close> is \<open>jose.jwt.get_unverified_header(token)\<close>,
    a JSON object when it returns;
  \<^item> \<open>jwt_decode token key algorithms audience issuer\<close> is \<open>jose.jwt.decode\<close>, which
    returns the claims (a JSON object), raises \<open>ExpiredSignatureError\<close> for a token past
    its expiry, \<open>JWTClaimsError\<close> for an audience or issuer that differs from the one
    passed, and \<open>JWTError\<close> for a bad signature, structure or algorithm.
\<close>

record env =
  AUTH0_DOMAIN :: string
  ALGORITHMS :: "string list"
  API_AUDIENCE :: string
  request_headers :: headers
  requests_get_json :: "string \<Rightarrow> lib_exception + json"
  jwt_get_unverified_header :: "string \<Rightarrow> lib_exception + dict"
  jwt_decode ::
    "string \<Rightarrow> dict \<Rightarrow> string list \<Rightarrow> string \<Rightarrow> string \<Rightarrow> lib_exception + dict"

text \<open>The library calls a run has made, in order.\<close>

datatype call =
    HttpGet string
  | GetUnverifiedHeader string
  | Decode string dict "string list" string string

section \<open>TokenVerifier: \<open>verify_decode_jwt\<close>\<close>

text \<open>\<open>for key in v\<close>: the elements of a list, the keys of a dictionary, the characters
  of a string; any other value is not iterable.\<close>

definition py_iter :: "json \<Rightarrow> exception + json list" where
  "py_iter v =
     (case v of
        JList xs \<Rightarrow> Inr xs
      | JDict d \<Rightarrow> Inr (map (\<lambda>kv. JStr (fst kv)) d)
      | JStr s \<Rightarrow> Inr (map (\<lambda>c. JStr [c]) s)
      | _ \<Rightarrow> Inl TypeError)"

text \<open>The dictionary built at the first match (lines 89 to 95).\<close>

definition rsa_key_of :: "dict \<Rightarrow> dict" where
  "rsa_key_of key =
     [(''kty'', py_get key ''kty''), (''kid'', py_get key ''kid''),
      (''use'', py_get key ''use''), (''n'', py_get key ''n''), (''e'', py_get key ''e'')]"

text \<open>The loop of lines 86 to 96: \<open>rsa_key\<close> stays \<open>{}\<close> unless an entry matches; the loop
  stops at the first match; \<open>key.get\<close> on an entry that is not a dictionary raises.\<close>

fun find_rsa_key :: "json list \<Rightarrow> dict \<Rightarrow> exception + dict" where
  "find_rsa_key [] unverified_header = Inr []"
| "find_rsa_key (key # keys) unverified_header =
     (case key of
        JDict k \<Rightarrow>
          if py_eq (py_get k ''kid'') (py_get unverified_header ''kid'')
          then Inr (rsa_key_of k)
          else find_rsa_key keys unverified_header
      | _ \<Rightarrow> Inl AttributeError)"

text \<open>\<open>jwks.get("keys", [])\<close> followed by the loop.\<close>

definition select_rsa_key :: "json \<Rightarrow> dict \<Rightarrow> exception + dict" where
  "select_rsa_key jwks unverified_header =
     (case jwks of
        JDict d \<Rightarrow>
          (case py_iter (py_get_default d ''keys'' (JList [])) of
             Inl e \<Rightarrow> Inl e
           | Inr keys \<Rightarrow> find_rsa_key keys unverified_header)
      | _ \<Rightarrow> Inl AttributeError)"

text \<open>The \<open>try\<close> block of lines 104 to 118.\<close>

definition decode_payload :: "env \<Rightarrow> string \<Rightarrow> dict \<Rightarrow> exception + dict" where
  "decode_payload env token rsa_key =
     (case jwt_decode env token rsa_key (ALGORITHMS env) (API_AUDIENCE env)
             (''https://'' @ AUTH0_DOMAIN env @ ''/'') of
        Inr payload \<Rightarrow> Inr payload
      | Inl ExpiredSignatureError \<Rightarrow> Inl (auth_error ''token_expired'' ''Token expired.'' 401)
      | Inl JWTClaimsError \<Rightarrow> Inl (auth_error ''invalid_claims'' ''Incorrect claims.'' 401)
      | Inl _ \<Rightarrow> Inl (auth_error ''invalid_token'' ''Token is invalid.'' 401))"

definition verify_decode_jwt :: "env \<Rightarrow> string \<Rightarrow> call list \<times> (exception + dict)" where
  "verify_decode_jwt env token =
     (if AUTH0_DOMAIN env = [] \<or> API_AUDIENCE env = [] then
        ([], Inl (auth_error ''configuration_error''
                    ''Missing Auth0 config (AUTH0_DOMAIN / API_AUDIENCE).'' 500))
      else
        (let jwks_url = ''https://'' @ AUTH0_DOMAIN env @ ''/.well-known/jwks.json'' in
         case requests_get_json env jwks_url of
           Inl e \<Rightarrow> ([HttpGet jwks_url], Inl (Raised e))
         | Inr jwks \<Rightarrow>
             (case jwt_get_unverified_header env token of
                Inl e \<Rightarrow> ([HttpGet jwks_url, GetUnverifiedHeader token], Inl (Raised e))
              | Inr unverified_header \<Rightarrow>
                  (case select_rsa_key jwks unverified_header of
                     Inl e \<Rightarrow> ([HttpGet jwks_url, GetUnverifiedHeader token], Inl e)
                   | Inr rsa_key \<Rightarrow>
                       if rsa_key = [] then
                         ([HttpGet jwks_url, GetUnverifiedHeader token],
                          Inl (auth_error ''invalid_header''
                                 ''Unable to find the appropriate key.'' 401))
                       else
                         ([HttpGet jwks_url, GetUnverifiedHeader token,
                           Decode token rsa_key (ALGORITHMS env) (API_AUDIENCE env)
                             (''https://'' @ AUTH0_DOMAIN env @ ''/'')],
                          decode_payload env token rsa_key)))))"

section \<open>AuthGate: \<open>requires_auth\<close>\<close>

text \<open>
  The wrapper calls \<open>f(payload, *args, **kwargs)\<close>: the positional arguments \<open>f\<close>
  receives are the claims followed by the caller's own. An \<open>event\<close> is a library call
  or an invocation of the wrapped operation with its positional and keyword arguments.
\<close>

datatype 'a arg = Claims dict | Positional 'a

datatype ('a, 'k) event = External call | Invoked "'a arg list" 'k

definition requires_auth ::
  "string \<Rightarrow> ('a arg list \<Rightarrow> 'k \<Rightarrow> exception + 'r) \<Rightarrow> env \<Rightarrow> 'a list \<Rightarrow> 'k
     \<Rightarrow> ('a, 'k) event list \<times> (exception + 'r)" where
  "requires_auth permission f env args kwargs =
     (case get_token_auth_header (request_headers env) of
        Inl e \<Rightarrow> ([], Inl e)
      | Inr token \<Rightarrow>
          (case verify_decode_jwt env token of
             (calls, Inl e) \<Rightarrow> (map External calls, Inl e)
           | (calls, Inr payload) \<Rightarrow>
               (case check_permissions permission payload of
                  Inl e \<Rightarrow> (map External calls, Inl e)
                | Inr ok \<Rightarrow>
                    (map External calls @ [Invoked (Claims payload # map Positional args) kwargs],
                     f (Claims payload # map Positional args) kwargs))))"

text \<open>The invocations of the wrapped operation among the events of a run.\<close>

fun invocations :: "('a, 'k) event list \<Rightarrow> ('a arg list \<times> 'k) list" where
  "invocations [] = []"
| "invocations (External c # es) = invocations es"
| "invocations (Invoked positional kw # es) = (positional, kw) # invocations es"

section \<open>The HTTP boundary: \<open>handle_auth_error\<close>\<close>

text \<open>The handler registered for \<open>AuthError\<close> in \<open>app.py\<close>: the JSON body and the
  status of the response, from the exception's two attributes.\<close>

definition handle_auth_error :: "dict \<Rightarrow> int \<Rightarrow> json \<times> int" where
  "handle_auth_error ex_error ex_status_code =
     (JDict [(''success'', JBool False), (''error'', JNum (of_int ex_status_code)),
             (''message'', JDict ex_error)],
      ex_status_code)"

text \<open>The fixed error-code-to-HTTP-status mapping, as the table of the specification's
  interface contract gives it: the statuses each error code may carry. The errors the
  code raises are compared with it.\<close>

definition error_status_table :: "(string \<times> int) list" where
  "error_status_table =
     [(''authorization_header_missing'', 401), (''invalid_header'', 401),
      (''invalid_claims'', 400), (''invalid_claims'', 401), (''unauthorized'', 403),
      (''token_expired'', 401), (''invalid_token'', 401), (''configuration_error'', 500)]"

section \<open>An example deployment\<close>

text \<open>
  A concrete environment for evaluating the functions: issuer domain \<open>x\<close>, audience
  \<open>api\<close>, a key set with two keys, and library functions that accept exactly one token,
  \<open>tok\<close>, signed with key \<open>k1\<close> and carrying the permission \<open>get:actors\<close>. Every other
  token string is rejected by \<open>get_unverified_header\<close> with \<open>JWTError\<close>, as python-jose
  does for a string such as \<open>abc\<close> that has no three dot-separated segments.
\<close>

definition example_jwks :: json where
  "example_jwks =
     JDict [(''keys'', JList
       [JDict [(''kty'', JStr ''RSA''), (''kid'', JStr ''k0''), (''use'', JStr ''sig''),
               (''n'', JStr ''n0''), (''e'', JStr ''AQAB'')],
        JDict [(''kty'', JStr ''RSA''), (''kid'', JStr ''k1''), (''use'', JStr ''sig''),
               (''n'', JStr ''n1''), (''e'', JStr ''AQAB'')]])]"

definition example_claims :: dict where
  "example_claims =
     [(''iss'', JStr ''https://x/''), (''aud'', JStr ''api''), (''exp'', JNum 2000000000),
      (''permissions'', JList [JStr ''get:actors''])]"

definition example_env :: env where
  "example_env =
     \<lparr> AUTH0_DOMAIN = ''x'',
       ALGORITHMS = [''RS256''],
       API_AUDIENCE = ''api'',
       request_headers = [''Authorization'' \<mapsto> ''Bearer tok''],
       requests_get_json =
         (\<lambda>url. if url = ''https://x/.well-known/jwks.json'' then Inr example_jwks
                else Inl (OtherException ''ConnectionError'')),
       jwt_get_unverified_header =
         (\<lambda>token. if token = ''tok''
                  then Inr [(''alg'', JStr ''RS256''), (''typ'', JStr ''JWT''),
                            (''kid'', JStr ''k1'')]
                  else Inl JWTError),
       jwt_decode =
         (\<lambda>token key algorithms audience issuer.
            if token = ''tok'' \<and> py_get key ''kid'' = JStr ''k1'' \<and> ''RS256'' \<in> set algorithms
            then (if audience = ''api'' \<and> issuer = ''https://x/'' then Inr example_claims
                  else Inl JWTClaimsError)
            else Inl JWTError) \<rparr>"

definition example_op :: "nat arg list \<Rightarrow> dict \<Rightarrow> exception + json" where
  "example_op positional kwargs = Inr (JDict [(''success'', JBool True)])"

text \<open>A key set in which two entries carry the key id \<open>k1\<close>.\<close>

definition duplicate_jwks :: dict where
  "duplicate_jwks =
     [(''keys'', JList
       [JDict [(''kty'', JStr ''RSA''), (''kid'', JStr ''k0''), (''use'', JStr ''sig''),
               (''n'', JStr ''n0''), (''e'', JStr ''AQAB'')],
        JDict [(''kty'', JStr ''RSA''), (''kid'', JStr ''k1''), (''use'', JStr ''sig''),
               (''n'', JStr ''first''), (''e'', JStr ''AQAB'')],
        JDict [(''kty'', JStr ''RSA''), (''kid'', JStr ''k1''), (''use'', JStr ''sig''),
               (''n'', JStr ''second''), (''e'', JStr ''AQAB'')]])]"

section \<open>The error table\<close>

text \<open>An error dictionary and a status that follow the table: the dictionary has a code
  and a description, and the table lists the status for the code.\<close>

definition in_table :: "dict \<Rightarrow> int \<Rightarrow> bool" where
  "in_table err st =
     (\<exists>code description.
        err = [(''code'', JStr code), (''description'', JStr description)] \<and>
        (code, st) \<in> set error_status_table)"

section \<open>Auxiliary facts\<close>

lemma py_eq_JStr: "py_eq v (JStr p) = (v = JStr p)"
  by (cases v) auto

lemma py_in_JStr: "py_in (JStr p) xs = (JStr p \<in> set xs)"
  by (simp add: py_in_def list_ex_iff py_eq_JStr)

lemma check_permissions_success:
  "(check_permissions permission payload = Inr True) =
   (\<exists>ps. map_of payload ''permissions'' = Some (JList ps) \<and> JStr permission \<in> set ps)"
  by (auto simp: check_permissions_def py_get_default_def py_in_JStr auth_error_def
      split: option.splits json.splits)

lemma split_Nil: "split [] = []"
  by (simp add: split_def)

text \<open>Characters and their codes.\<close>

lemma char_eq_iff_code: "n < 256 \<Longrightarrow> (c = char_of (n::nat)) = ((of_char c :: nat) = n)"
proof
  assume "n < 256" "c = char_of n"
  then show "(of_char c :: nat) = n" by simp
next
  assume "(of_char c :: nat) = n"
  then have "char_of (of_char c :: nat) = (char_of n :: char)" by simp
  then show "c = char_of n" by simp
qed

lemma lower_char_eq_iff:
  assumes "97 \<le> m" "m \<le> 122"
  shows "(lower_char c = char_of (m::nat)) = (c = char_of m \<or> c = char_of (m - 32))"
proof -
  define n :: nat where "n = of_char c"
  have m1: "(c = char_of m) = (n = m)"
    unfolding n_def using assms by (intro char_eq_iff_code) simp
  have m2: "(c = char_of (m - 32)) = (n = m - 32)"
    unfolding n_def using assms by (intro char_eq_iff_code) simp
  show ?thesis
  proof (cases "(65 \<le> n \<and> n \<le> 90) \<or> (192 \<le> n \<and> n \<le> 222 \<and> n \<noteq> 215)")
    case True
    then have l: "lower_char c = char_of (n + 32)"
      unfolding lower_char_def Let_def n_def by simp
    have small: "n + 32 < 256" using True by auto
    have "(char_of (n + 32) = (char_of m :: char)) = ((of_char (char_of (n + 32) :: char) :: nat) = m)"
      using assms by (intro char_eq_iff_code) simp
    also have "(of_char (char_of (n + 32) :: char) :: nat) = n + 32"
      using small by simp
    finally have "(lower_char c = char_of m) = (n + 32 = m)"
      using l by simp
    moreover have "n \<noteq> m"
      using True assms by auto
    moreover have "(n + 32 = m) = (n = m - 32)"
      using assms by auto
    ultimately show ?thesis
      using m1 m2 by simp
  next
    case False
    then have l: "lower_char c = c"
      unfolding lower_char_def Let_def n_def by auto
    have "n \<noteq> m - 32"
      using False assms by auto
    with l m1 m2 show ?thesis
      by simp
  qed
qed


lemma letter_codes:
  "char_of (98 :: nat) = CHR ''b''" "char_of (66 :: nat) = CHR ''B''"
  "char_of (101 :: nat) = CHR ''e''" "char_of (69 :: nat) = CHR ''E''"
  "char_of (97 :: nat) = CHR ''a''" "char_of (65 :: nat) = CHR ''A''"
  "char_of (114 :: nat) = CHR ''r''" "char_of (82 :: nat) = CHR ''R''"
  by code_simp+

lemma map_eq_six:
  "(map f w = [x1, x2, x3, x4, x5, x6]) =
   (\<exists>c1 c2 c3 c4 c5 c6. w = [c1, c2, c3, c4, c5, c6] \<and> f c1 = x1 \<and> f c2 = x2 \<and>
      f c3 = x3 \<and> f c4 = x4 \<and> f c5 = x5 \<and> f c6 = x6)"
  by (auto simp: map_eq_Cons_conv)

text \<open>The words that \<open>lower\<close> sends to \<open>bearer\<close> are its spellings in upper and lower
  case letters.\<close>

lemma lower_bearer:
  "(lower w = ''bearer'') =
   (\<exists>c1 c2 c3 c4 c5 c6. w = [c1, c2, c3, c4, c5, c6] \<and>
      c1 \<in> {CHR ''b'', CHR ''B''} \<and> c2 \<in> {CHR ''e'', CHR ''E''} \<and>
      c3 \<in> {CHR ''a'', CHR ''A''} \<and> c4 \<in> {CHR ''r'', CHR ''R''} \<and>
      c5 \<in> {CHR ''e'', CHR ''E''} \<and> c6 \<in> {CHR ''r'', CHR ''R''})"
proof -
  have b: "(lower_char c = CHR ''b'') = (c \<in> {CHR ''b'', CHR ''B''})" for c
    using lower_char_eq_iff [of 98 c] by (simp add: letter_codes)
  have e: "(lower_char c = CHR ''e'') = (c \<in> {CHR ''e'', CHR ''E''})" for c
    using lower_char_eq_iff [of 101 c] by (simp add: letter_codes)
  have a: "(lower_char c = CHR ''a'') = (c \<in> {CHR ''a'', CHR ''A''})" for c
    using lower_char_eq_iff [of 97 c] by (simp add: letter_codes)
  have r: "(lower_char c = CHR ''r'') = (c \<in> {CHR ''r'', CHR ''R''})" for c
    using lower_char_eq_iff [of 114 c] by (simp add: letter_codes)
  show ?thesis
    unfolding lower_def by (simp only: map_eq_six b e a r)
qed

text \<open>Splitting yields no part exactly for a string of whitespace only.\<close>

lemma split_from_empty:
  "(split_from w s = []) = (w = [] \<and> (\<forall>c\<in>set s. is_space c))"
  by (induction s arbitrary: w) auto

lemma split_empty: "(split s = []) = (\<forall>c\<in>set s. is_space c)"
  by (simp add: split_def split_from_empty)

text \<open>Every non-empty header value of whitespace only reaches \<open>parts[0]\<close> with an
  empty list.\<close>

lemma whitespace_only_header:
  "hs ''Authorization'' = Some auth \<Longrightarrow> auth \<noteq> [] \<Longrightarrow> \<forall>c\<in>set auth. is_space c \<Longrightarrow>
   get_token_auth_header hs = Inl IndexError"
  by (simp add: get_token_auth_header_def split_empty)

section \<open>Properties of the PermissionChecker\<close>

text \<open>
  C1 claims that \<open>check_permissions\<close> succeeds for every payload when the required
  permission is the empty string. The function has no case for the empty string: a
  payload whose permissions are \<open>["get:actors"]\<close> is refused with 403 like any other
  permission that is not in the list.
\<close>

theorem C1_counterexample:
  "check_permissions '''' [(''permissions'', JList [JStr ''get:actors''])] =
     Inl (AuthError [(''code'', JStr ''unauthorized''),
                     (''description'', JStr ''Permission not found.'')] 403)"
  by (simp add: check_permissions_def py_get_default_def py_in_def auth_error_def)

text \<open>
  C1, as the code has it: with the empty string as the required permission,
  \<open>check_permissions\<close> applies the rule it applies to every permission. It fails with
  \<open>unauthorized\<close> and status 403 when the payload has no \<open>permissions\<close> entry, fails with
  \<open>invalid_claims\<close> and status 400 when the entry is not a list, fails with
  \<open>unauthorized\<close> and status 403 when the entry is a list that does not contain the
  empty string, and succeeds when the entry is a list that contains the empty string.
  So it succeeds exactly in the last case.
\<close>

theorem C1_empty_permission:
  "check_permissions '''' payload =
     (case map_of payload ''permissions'' of
        None \<Rightarrow> Inl (auth_error ''unauthorized'' ''Permission not found.'' 403)
      | Some (JList ps) \<Rightarrow>
          if JStr '''' \<in> set ps then Inr True
          else Inl (auth_error ''unauthorized'' ''Permission not found.'' 403)
      | Some other \<Rightarrow>
          Inl (auth_error ''invalid_claims'' ''Permissions claim must be a list.'' 400)) \<and>
   (check_permissions '''' payload = Inr True) =
     (\<exists>ps. map_of payload ''permissions'' = Some (JList ps) \<and> JStr '''' \<in> set ps)"
proof
  show "check_permissions '''' payload =
     (case map_of payload ''permissions'' of
        None \<Rightarrow> Inl (auth_error ''unauthorized'' ''Permission not found.'' 403)
      | Some (JList ps) \<Rightarrow>
          if JStr '''' \<in> set ps then Inr True
          else Inl (auth_error ''unauthorized'' ''Permission not found.'' 403)
      | Some other \<Rightarrow>
          Inl (auth_error ''invalid_claims'' ''Permissions claim must be a list.'' 400))"
    by (simp add: check_permissions_def py_get_default_def py_in_JStr
        split: option.splits json.splits)
next
  show "(check_permissions '''' payload = Inr True) =
     (\<exists>ps. map_of payload ''permissions'' = Some (JList ps) \<and> JStr '''' \<in> set ps)"
    by (rule check_permissions_success)
qed

text \<open>
  C5: a payload whose \<open>permissions\<close> entry is present but is not a list is refused with
  \<open>invalid_claims\<close> and status 400; a payload with no \<open>permissions\<close> entry is treated as
  having the empty list, so the required permission (whatever it is, in particular any
  non-empty one) is not found and the check fails with \<open>unauthorized\<close> and status 403.
\<close>

theorem C5_permissions_not_list_or_missing:
  "(\<forall>v. map_of payload ''permissions'' = Some v \<and> (\<forall>ps. v \<noteq> JList ps) \<longrightarrow>
      check_permissions permission payload =
        Inl (auth_error ''invalid_claims'' ''Permissions claim must be a list.'' 400)) \<and>
   (map_of payload ''permissions'' = None \<longrightarrow>
      check_permissions permission payload =
        Inl (auth_error ''unauthorized'' ''Permission not found.'' 403))"
  by (auto simp: check_permissions_def py_get_default_def py_in_def split: json.splits)

theorem C5_witness:
  "check_permissions ''get:actors'' [(''permissions'', JStr ''get:actors'')] =
     Inl (auth_error ''invalid_claims'' ''Permissions claim must be a list.'' 400) \<and>
   check_permissions ''get:actors'' [(''sub'', JStr ''auth0|1'')] =
     Inl (auth_error ''unauthorized'' ''Permission not found.'' 403)"
proof
  have present:
    "map_of [(''permissions'', JStr ''get:actors'')] ''permissions'' = Some (JStr ''get:actors'')
     \<and> (\<forall>ps. JStr ''get:actors'' \<noteq> JList ps)"
    by simp
  from C5_permissions_not_list_or_missing
         [of "[(''permissions'', JStr ''get:actors'')]" "''get:actors''"] present
  show "check_permissions ''get:actors'' [(''permissions'', JStr ''get:actors'')] =
          Inl (auth_error ''invalid_claims'' ''Permissions claim must be a list.'' 400)"
    by blast
next
  have missing: "map_of [(''sub'', JStr ''auth0|1'')] ''permissions'' = None"
    by simp
  from C5_permissions_not_list_or_missing [of "[(''sub'', JStr ''auth0|1'')]" "''get:actors''"]
    missing
  show "check_permissions ''get:actors'' [(''sub'', JStr ''auth0|1'')] =
          Inl (auth_error ''unauthorized'' ''Permission not found.'' 403)"
    by blast
qed

section \<open>Properties of the TokenExtractor\<close>

text \<open>
  C4 claims that every header that is not absent is split, and is refused with
  \<open>invalid_header\<close> when it has fewer than two parts. A header that is present with an
  empty value has no part, and is refused with \<open>authorization_header_missing\<close>: the
  guard \<open>not auth\<close> treats it like an absent one.
\<close>

theorem C4_counterexample:
  "[''Authorization'' \<mapsto> ''''] ''Authorization'' = Some '''' \<and>
   length (split '''') < 2 \<and>
   get_token_auth_header [''Authorization'' \<mapsto> ''''] =
     Inl (AuthError [(''code'', JStr ''authorization_header_missing''),
                     (''description'', JStr ''Authorization header is expected.'')] 401)"
  by (simp add: get_token_auth_header_def split_def auth_error_def)

text \<open>
  C4, as the code has it: an absent or empty authorization header is refused with
  \<open>authorization_header_missing\<close> (401). A header whose split on whitespace has a first
  part is refused with \<open>invalid_header\<close> (401) when the lower-case form of that part is
  not \<open>bearer\<close>, when it is the only part, or when there are more than two parts; with
  exactly two parts the second is returned. By \<open>lower_bearer\<close> the lower-case form is
  \<open>bearer\<close> exactly for the spellings of the word in upper and lower case letters.
  (A non-empty header of whitespace only has no first part; it is the subject of C10.)
\<close>

theorem C4_get_token_auth_header:
  "(hs ''Authorization'' = None \<or> hs ''Authorization'' = Some [] \<longrightarrow>
      get_token_auth_header hs =
        Inl (auth_error ''authorization_header_missing''
               ''Authorization header is expected.'' 401)) \<and>
   (hs ''Authorization'' = Some auth \<and> split auth = p # ps \<and> lower p \<noteq> ''bearer'' \<longrightarrow>
      get_token_auth_header hs =
        Inl (auth_error ''invalid_header''
               ''Authorization header must start with Bearer.'' 401)) \<and>
   (hs ''Authorization'' = Some auth \<and> split auth = [p] \<and> lower p = ''bearer'' \<longrightarrow>
      get_token_auth_header hs = Inl (auth_error ''invalid_header'' ''Token not found.'' 401)) \<and>
   (hs ''Authorization'' = Some auth \<and> split auth = p # ps \<and> lower p = ''bearer'' \<and>
    length ps > 1 \<longrightarrow>
      get_token_auth_header hs =
        Inl (auth_error ''invalid_header''
               ''Authorization header must be Bearer token.'' 401)) \<and>
   (hs ''Authorization'' = Some auth \<and> split auth = [p, t] \<and> lower p = ''bearer'' \<longrightarrow>
      get_token_auth_header hs = Inr t)"
proof -
  have nonempty: "auth \<noteq> []" if "split auth = q # qs" for q qs
    using that split_Nil by auto
  show ?thesis
    by (auto simp: get_token_auth_header_def Let_def split_Nil dest: nonempty)
qed

theorem C4_witness:
  "get_token_auth_header Map.empty =
     Inl (auth_error ''authorization_header_missing'' ''Authorization header is expected.'' 401) \<and>
   get_token_auth_header [''Authorization'' \<mapsto> ''Token abc''] =
     Inl (auth_error ''invalid_header'' ''Authorization header must start with Bearer.'' 401) \<and>
   get_token_auth_header [''Authorization'' \<mapsto> ''Bearer''] =
     Inl (auth_error ''invalid_header'' ''Token not found.'' 401) \<and>
   get_token_auth_header [''Authorization'' \<mapsto> ''Bearer a b''] =
     Inl (auth_error ''invalid_header'' ''Authorization header must be Bearer token.'' 401) \<and>
   get_token_auth_header [''Authorization'' \<mapsto> ''bEARER tok''] = Inr ''tok''"
proof (intro conjI)
  show "get_token_auth_header Map.empty =
     Inl (auth_error ''authorization_header_missing'' ''Authorization header is expected.'' 401)"
    using C4_get_token_auth_header [where hs = Map.empty] by simp
next
  have "split ''Token abc'' = [''Token'', ''abc'']" "lower ''Token'' \<noteq> ''bearer''"
    by code_simp+
  then show "get_token_auth_header [''Authorization'' \<mapsto> ''Token abc''] =
     Inl (auth_error ''invalid_header'' ''Authorization header must start with Bearer.'' 401)"
    using C4_get_token_auth_header
      [where hs = "[''Authorization'' \<mapsto> ''Token abc'']" and auth = "''Token abc''"
         and p = "''Token''" and ps = "[''abc'']"]
    by simp
next
  have "split ''Bearer'' = [''Bearer'']" "lower ''Bearer'' = ''bearer''"
    by code_simp+
  then show "get_token_auth_header [''Authorization'' \<mapsto> ''Bearer''] =
     Inl (auth_error ''invalid_header'' ''Token not found.'' 401)"
    using C4_get_token_auth_header
      [where hs = "[''Authorization'' \<mapsto> ''Bearer'']" and auth = "''Bearer''"
         and p = "''Bearer''"]
    by simp
next
  have "split ''Bearer a b'' = [''Bearer'', ''a'', ''b'']" "lower ''Bearer'' = ''bearer''"
    by code_simp+
  then show "get_token_auth_header [''Authorization'' \<mapsto> ''Bearer a b''] =
     Inl (auth_error ''invalid_header'' ''Authorization header must be Bearer token.'' 401)"
    using C4_get_token_auth_header
      [where hs = "[''Authorization'' \<mapsto> ''Bearer a b'']" and auth = "''Bearer a b''"
         and p = "''Bearer''" and ps = "[''a'', ''b'']"]
    by simp
next
  have "split ''bEARER tok'' = [''bEARER'', ''tok'']" "lower ''bEARER'' = ''bearer''"
    by code_simp+
  then show "get_token_auth_header [''Authorization'' \<mapsto> ''bEARER tok''] = Inr ''tok''"
    using C4_get_token_auth_header
      [where hs = "[''Authorization'' \<mapsto> ''bEARER tok'']" and auth = "''bEARER tok''"
         and p = "''bEARER''" and t = "''tok''"]
    by simp
qed

text \<open>
  C10 claims that \<open>get_token_auth_header\<close> returns a token or raises an \<open>AuthError\<close> for
  every header value. For the header of three spaces, and for the header that is one
  no-break space (code point 160), the value is non-empty, the split has no part, and
  reading \<open>parts[0]\<close> raises \<open>IndexError\<close>.
\<close>

theorem C10_whitespace_header_IndexError:
  "get_token_auth_header [''Authorization'' \<mapsto> ''   ''] = Inl IndexError \<and>
   get_token_auth_header [''Authorization'' \<mapsto> [char_of (160 :: nat)]] = Inl IndexError"
  by (simp add: whitespace_only_header is_space_def)

section \<open>Properties of the TokenVerifier\<close>

lemma rsa_key_of_nonempty: "rsa_key_of k \<noteq> []"
  by (simp add: rsa_key_of_def)

lemma find_rsa_key_no_match:
  "\<forall>k\<in>set ks. \<not> py_eq (py_get k ''kid'') (py_get hdr ''kid'') \<Longrightarrow>
   find_rsa_key (map JDict ks) hdr = Inr []"
  by (induction ks) auto

lemma find_rsa_key_first_match:
  "\<forall>k'\<in>set pre. \<not> py_eq (py_get k' ''kid'') (py_get hdr ''kid'') \<Longrightarrow>
   py_eq (py_get k ''kid'') (py_get hdr ''kid'') \<Longrightarrow>
   find_rsa_key (map JDict pre @ JDict k # post) hdr = Inr (rsa_key_of k)"
  by (induction pre) auto

lemma find_rsa_key_not_AuthError: "find_rsa_key keys hdr \<noteq> Inl (AuthError err st)"
  by (induction keys) (auto split: json.splits)

lemma select_rsa_key_not_AuthError: "select_rsa_key jwks hdr \<noteq> Inl (AuthError err st)"
  by (auto simp: select_rsa_key_def py_iter_def find_rsa_key_not_AuthError
      split: json.splits sum.splits)

text \<open>A failure of \<open>get_unverified_header\<close> leaves the verifier as the library raised it;
  a failure of \<open>decode\<close> other than expiry or a claims mismatch becomes \<open>invalid_token\<close>.\<close>

lemma header_failure_unstructured:
  "AUTH0_DOMAIN env \<noteq> [] \<Longrightarrow> API_AUDIENCE env \<noteq> [] \<Longrightarrow>
   requests_get_json env (''https://'' @ AUTH0_DOMAIN env @ ''/.well-known/jwks.json'') = Inr jwks \<Longrightarrow>
   jwt_get_unverified_header env token = Inl e \<Longrightarrow>
   snd (verify_decode_jwt env token) = Inl (Raised e)"
  by (simp add: verify_decode_jwt_def)

lemma decode_failure_invalid_token:
  "jwt_decode env token rsa_key (ALGORITHMS env) (API_AUDIENCE env)
     (''https://'' @ AUTH0_DOMAIN env @ ''/'') = Inl e \<Longrightarrow>
   e \<noteq> ExpiredSignatureError \<Longrightarrow> e \<noteq> JWTClaimsError \<Longrightarrow>
   decode_payload env token rsa_key = Inl (auth_error ''invalid_token'' ''Token is invalid.'' 401)"
  by (cases e) (simp_all add: decode_payload_def)

text \<open>
  C2 claims that a token of invalid structure makes \<open>verify_decode_jwt\<close> fail with the
  \<open>AuthError\<close> \<open>invalid_token\<close> (401), never with an unstructured exception. The header of
  the token is decoded outside the \<open>try\<close> block: for the token \<open>abc\<close>, in a configured
  deployment whose key set was fetched, the \<open>JWTError\<close> of \<open>get_unverified_header\<close>
  leaves \<open>verify_decode_jwt\<close> and the wrapper as it is.
\<close>

theorem C2_malformed_token_JWTError:
  "verify_decode_jwt example_env ''abc'' =
     ([HttpGet ''https://x/.well-known/jwks.json'', GetUnverifiedHeader ''abc''],
      Inl (Raised JWTError)) \<and>
   requires_auth ''get:actors'' example_op
     (example_env\<lparr>request_headers := [''Authorization'' \<mapsto> ''Bearer abc'']\<rparr>) [] [] =
     ([External (HttpGet ''https://x/.well-known/jwks.json''),
       External (GetUnverifiedHeader ''abc'')],
      Inl (Raised JWTError))"
proof
  show "verify_decode_jwt example_env ''abc'' =
     ([HttpGet ''https://x/.well-known/jwks.json'', GetUnverifiedHeader ''abc''],
      Inl (Raised JWTError))"
    by (simp add: verify_decode_jwt_def example_env_def)
next
  have "get_token_auth_header [''Authorization'' \<mapsto> ''Bearer abc''] = Inr ''abc''"
    by code_simp
  then show "requires_auth ''get:actors'' example_op
     (example_env\<lparr>request_headers := [''Authorization'' \<mapsto> ''Bearer abc'']\<rparr>) [] [] =
     ([External (HttpGet ''https://x/.well-known/jwks.json''),
       External (GetUnverifiedHeader ''abc'')],
      Inl (Raised JWTError))"
    by (simp add: requires_auth_def verify_decode_jwt_def example_env_def)
qed

text \<open>
  C7: when the issuer domain or the API audience is empty, \<open>verify_decode_jwt\<close> fails
  with \<open>configuration_error\<close> and status 500, and has made no library call: the key set
  was not fetched.
\<close>

theorem C7_configuration_error:
  "AUTH0_DOMAIN env = [] \<or> API_AUDIENCE env = [] \<Longrightarrow>
   verify_decode_jwt env token =
     ([], Inl (auth_error ''configuration_error''
                 ''Missing Auth0 config (AUTH0_DOMAIN / API_AUDIENCE).'' 500))"
  by (simp add: verify_decode_jwt_def)

theorem C7_witness:
  "verify_decode_jwt (example_env\<lparr>AUTH0_DOMAIN := ''''\<rparr>) ''tok'' =
     ([], Inl (auth_error ''configuration_error''
                 ''Missing Auth0 config (AUTH0_DOMAIN / API_AUDIENCE).'' 500)) \<and>
   verify_decode_jwt (example_env\<lparr>API_AUDIENCE := ''''\<rparr>) ''tok'' =
     ([], Inl (auth_error ''configuration_error''
                 ''Missing Auth0 config (AUTH0_DOMAIN / API_AUDIENCE).'' 500))"
proof
  have "AUTH0_DOMAIN (example_env\<lparr>AUTH0_DOMAIN := ''''\<rparr>) = []"
    by simp
  then show "verify_decode_jwt (example_env\<lparr>AUTH0_DOMAIN := ''''\<rparr>) ''tok'' =
     ([], Inl (auth_error ''configuration_error''
                 ''Missing Auth0 config (AUTH0_DOMAIN / API_AUDIENCE).'' 500))"
    by (rule C7_configuration_error [OF disjI1])
next
  have "API_AUDIENCE (example_env\<lparr>API_AUDIENCE := ''''\<rparr>) = []"
    by simp
  then show "verify_decode_jwt (example_env\<lparr>API_AUDIENCE := ''''\<rparr>) ''tok'' =
     ([], Inl (auth_error ''configuration_error''
                 ''Missing Auth0 config (AUTH0_DOMAIN / API_AUDIENCE).'' 500))"
    by (rule C7_configuration_error [OF disjI2])
qed

text \<open>
  C6: in a configured deployment whose key set was fetched and whose token header was
  decoded, the key set (a list of key descriptors) is scanned in order for an entry
  whose \<open>kid\<close> equals the \<open>kid\<close> of the token header. When no entry matches,
  \<open>verify_decode_jwt\<close> fails with \<open>invalid_header\<close> and status 401. When an entry matches
  and none before it does, the token is decoded with the key built from that entry,
  whatever follows it in the list: the first match wins.
\<close>

theorem C6_key_selection:
  assumes "AUTH0_DOMAIN env \<noteq> []" and "API_AUDIENCE env \<noteq> []"
    and "requests_get_json env (''https://'' @ AUTH0_DOMAIN env @ ''/.well-known/jwks.json'')
           = Inr (JDict jwks)"
    and "jwt_get_unverified_header env token = Inr hdr"
  shows
    "(py_get_default jwks ''keys'' (JList []) = JList (map JDict ks) \<and>
      (\<forall>k\<in>set ks. \<not> py_eq (py_get k ''kid'') (py_get hdr ''kid'')) \<longrightarrow>
        verify_decode_jwt env token =
          ([HttpGet (''https://'' @ AUTH0_DOMAIN env @ ''/.well-known/jwks.json''),
            GetUnverifiedHeader token],
           Inl (auth_error ''invalid_header'' ''Unable to find the appropriate key.'' 401))) \<and>
     (py_get_default jwks ''keys'' (JList []) = JList (map JDict pre @ JDict k # post) \<and>
      (\<forall>k'\<in>set pre. \<not> py_eq (py_get k' ''kid'') (py_get hdr ''kid'')) \<and>
      py_eq (py_get k ''kid'') (py_get hdr ''kid'') \<longrightarrow>
        verify_decode_jwt env token =
          ([HttpGet (''https://'' @ AUTH0_DOMAIN env @ ''/.well-known/jwks.json''),
            GetUnverifiedHeader token,
            Decode token (rsa_key_of k) (ALGORITHMS env) (API_AUDIENCE env)
              (''https://'' @ AUTH0_DOMAIN env @ ''/'')],
           decode_payload env token (rsa_key_of k)))"
  using assms
  by (simp add: verify_decode_jwt_def select_rsa_key_def py_iter_def find_rsa_key_no_match
      find_rsa_key_first_match rsa_key_of_nonempty)

theorem C6_witness:
  "verify_decode_jwt
     (example_env\<lparr>jwt_get_unverified_header := (\<lambda>token. Inr [(''kid'', JStr ''k9'')]),
                  requests_get_json := (\<lambda>url. Inr (JDict duplicate_jwks))\<rparr>) ''tok'' =
     ([HttpGet ''https://x/.well-known/jwks.json'', GetUnverifiedHeader ''tok''],
      Inl (auth_error ''invalid_header'' ''Unable to find the appropriate key.'' 401)) \<and>
   verify_decode_jwt
     (example_env\<lparr>requests_get_json := (\<lambda>url. Inr (JDict duplicate_jwks))\<rparr>) ''tok'' =
     ([HttpGet ''https://x/.well-known/jwks.json'', GetUnverifiedHeader ''tok'',
       Decode ''tok''
         [(''kty'', JStr ''RSA''), (''kid'', JStr ''k1''), (''use'', JStr ''sig''),
          (''n'', JStr ''first''), (''e'', JStr ''AQAB'')]
         [''RS256''] ''api'' ''https://x/''],
      Inr example_claims)"
proof
  let ?env = "example_env\<lparr>jwt_get_unverified_header := (\<lambda>token. Inr [(''kid'', JStr ''k9'')]),
                  requests_get_json := (\<lambda>url. Inr (JDict duplicate_jwks))\<rparr>"
  let ?k0 = "[(''kty'', JStr ''RSA''), (''kid'', JStr ''k0''), (''use'', JStr ''sig''),
               (''n'', JStr ''n0''), (''e'', JStr ''AQAB'')]"
  let ?k1 = "[(''kty'', JStr ''RSA''), (''kid'', JStr ''k1''), (''use'', JStr ''sig''),
               (''n'', JStr ''first''), (''e'', JStr ''AQAB'')]"
  let ?k2 = "[(''kty'', JStr ''RSA''), (''kid'', JStr ''k1''), (''use'', JStr ''sig''),
               (''n'', JStr ''second''), (''e'', JStr ''AQAB'')]"
  have a: "AUTH0_DOMAIN ?env \<noteq> []" "API_AUDIENCE ?env \<noteq> []"
    by (simp_all add: example_env_def)
  have b: "requests_get_json ?env (''https://'' @ AUTH0_DOMAIN ?env @ ''/.well-known/jwks.json'')
             = Inr (JDict duplicate_jwks)"
    by simp
  have c: "jwt_get_unverified_header ?env ''tok'' = Inr [(''kid'', JStr ''k9'')]"
    by simp
  have d: "py_get_default duplicate_jwks ''keys'' (JList []) = JList (map JDict [?k0, ?k1, ?k2])"
    by (simp add: duplicate_jwks_def py_get_default_def)
  have e: "\<forall>k\<in>set [?k0, ?k1, ?k2]. \<not> py_eq (py_get k ''kid'') (py_get [(''kid'', JStr ''k9'')] ''kid'')"
    by (simp add: py_get_def)
  from C6_key_selection [OF a b c, where ks = "[?k0, ?k1, ?k2]"] d e
  have "verify_decode_jwt ?env ''tok'' =
          ([HttpGet (''https://'' @ AUTH0_DOMAIN ?env @ ''/.well-known/jwks.json''),
            GetUnverifiedHeader ''tok''],
           Inl (auth_error ''invalid_header'' ''Unable to find the appropriate key.'' 401))"
    by blast
  then show "verify_decode_jwt ?env ''tok'' =
     ([HttpGet ''https://x/.well-known/jwks.json'', GetUnverifiedHeader ''tok''],
      Inl (auth_error ''invalid_header'' ''Unable to find the appropriate key.'' 401))"
    by (simp add: example_env_def)
next
  let ?env = "example_env\<lparr>requests_get_json := (\<lambda>url. Inr (JDict duplicate_jwks))\<rparr>"
  let ?hdr = "[(''alg'', JStr ''RS256''), (''typ'', JStr ''JWT''), (''kid'', JStr ''k1'')]"
  let ?k0 = "[(''kty'', JStr ''RSA''), (''kid'', JStr ''k0''), (''use'', JStr ''sig''),
               (''n'', JStr ''n0''), (''e'', JStr ''AQAB'')]"
  let ?k1 = "[(''kty'', JStr ''RSA''), (''kid'', JStr ''k1''), (''use'', JStr ''sig''),
               (''n'', JStr ''first''), (''e'', JStr ''AQAB'')]"
  let ?k2 = "[(''kty'', JStr ''RSA''), (''kid'', JStr ''k1''), (''use'', JStr ''sig''),
               (''n'', JStr ''second''), (''e'', JStr ''AQAB'')]"
  have a: "AUTH0_DOMAIN ?env \<noteq> []" "API_AUDIENCE ?env \<noteq> []"
    by (simp_all add: example_env_def)
  have b: "requests_get_json ?env (''https://'' @ AUTH0_DOMAIN ?env @ ''/.well-known/jwks.json'')
             = Inr (JDict duplicate_jwks)"
    by simp
  have c: "jwt_get_unverified_header ?env ''tok'' = Inr ?hdr"
    by (simp add: example_env_def)
  have d: "py_get_default duplicate_jwks ''keys'' (JList []) =
             JList (map JDict [?k0] @ JDict ?k1 # [JDict ?k2])"
    by (simp add: duplicate_jwks_def py_get_default_def)
  have e: "\<forall>k'\<in>set [?k0]. \<not> py_eq (py_get k' ''kid'') (py_get ?hdr ''kid'')"
    by (simp add: py_get_def)
  have f: "py_eq (py_get ?k1 ''kid'') (py_get ?hdr ''kid'')"
    by (simp add: py_get_def)
  from C6_key_selection [OF a b c, where pre = "[?k0]" and k = ?k1 and post = "[JDict ?k2]"] d e f
  have "verify_decode_jwt ?env ''tok'' =
          ([HttpGet (''https://'' @ AUTH0_DOMAIN ?env @ ''/.well-known/jwks.json''),
            GetUnverifiedHeader ''tok'',
            Decode ''tok'' (rsa_key_of ?k1) (ALGORITHMS ?env) (API_AUDIENCE ?env)
              (''https://'' @ AUTH0_DOMAIN ?env @ ''/'')],
           decode_payload ?env ''tok'' (rsa_key_of ?k1))"
    by blast
  then show "verify_decode_jwt ?env ''tok'' =
     ([HttpGet ''https://x/.well-known/jwks.json'', GetUnverifiedHeader ''tok'',
       Decode ''tok'' ?k1 [''RS256''] ''api'' ''https://x/''],
      Inr example_claims)"
    by (simp add: example_env_def rsa_key_of_def py_get_def decode_payload_def)
qed

text \<open>
  C8: once a key has been matched, the token is decoded against the configured
  algorithms, the configured API audience and the issuer \<open>https://<issuer-domain>/\<close>.
  When the library reports a claims mismatch (\<open>JWTClaimsError\<close>: the audience or the
  issuer of a validly signed token differs from the one passed), \<open>verify_decode_jwt\<close>
  fails with \<open>invalid_claims\<close> and status 401; when it reports that the token is past
  its expiry (\<open>ExpiredSignatureError\<close>), \<open>verify_decode_jwt\<close> fails with \<open>token_expired\<close>
  and status 401.
\<close>

theorem C8_claims_and_expiry:
  assumes "AUTH0_DOMAIN env \<noteq> []" and "API_AUDIENCE env \<noteq> []"
    and "requests_get_json env (''https://'' @ AUTH0_DOMAIN env @ ''/.well-known/jwks.json'')
           = Inr jwks"
    and "jwt_get_unverified_header env token = Inr hdr"
    and "select_rsa_key jwks hdr = Inr rsa_key" and "rsa_key \<noteq> []"
  shows
    "fst (verify_decode_jwt env token) =
       [HttpGet (''https://'' @ AUTH0_DOMAIN env @ ''/.well-known/jwks.json''),
        GetUnverifiedHeader token,
        Decode token rsa_key (ALGORITHMS env) (API_AUDIENCE env)
          (''https://'' @ AUTH0_DOMAIN env @ ''/'')] \<and>
     (jwt_decode env token rsa_key (ALGORITHMS env) (API_AUDIENCE env)
        (''https://'' @ AUTH0_DOMAIN env @ ''/'') = Inl JWTClaimsError \<longrightarrow>
      snd (verify_decode_jwt env token) =
        Inl (auth_error ''invalid_claims'' ''Incorrect claims.'' 401)) \<and>
     (jwt_decode env token rsa_key (ALGORITHMS env) (API_AUDIENCE env)
        (''https://'' @ AUTH0_DOMAIN env @ ''/'') = Inl ExpiredSignatureError \<longrightarrow>
      snd (verify_decode_jwt env token) =
        Inl (auth_error ''token_expired'' ''Token expired.'' 401))"
  using assms
  by (simp add: verify_decode_jwt_def decode_payload_def)

theorem C8_witness:
  "snd (verify_decode_jwt (example_env\<lparr>API_AUDIENCE := ''other''\<rparr>) ''tok'') =
     Inl (auth_error ''invalid_claims'' ''Incorrect claims.'' 401) \<and>
   snd (verify_decode_jwt
          (example_env\<lparr>jwt_decode := (\<lambda>token key algorithms audience issuer.
                                         Inl ExpiredSignatureError)\<rparr>) ''tok'') =
     Inl (auth_error ''token_expired'' ''Token expired.'' 401)"
proof
  let ?env = "example_env\<lparr>API_AUDIENCE := ''other''\<rparr>"
  let ?hdr = "[(''alg'', JStr ''RS256''), (''typ'', JStr ''JWT''), (''kid'', JStr ''k1'')]"
  let ?key = "[(''kty'', JStr ''RSA''), (''kid'', JStr ''k1''), (''use'', JStr ''sig''),
               (''n'', JStr ''n1''), (''e'', JStr ''AQAB'')]"
  have a: "AUTH0_DOMAIN ?env \<noteq> []" "API_AUDIENCE ?env \<noteq> []"
    by (simp_all add: example_env_def)
  have b: "requests_get_json ?env (''https://'' @ AUTH0_DOMAIN ?env @ ''/.well-known/jwks.json'')
             = Inr example_jwks"
    by (simp add: example_env_def)
  have c: "jwt_get_unverified_header ?env ''tok'' = Inr ?hdr"
    by (simp add: example_env_def)
  have d: "select_rsa_key example_jwks ?hdr = Inr ?key" "?key \<noteq> []"
    by (simp_all add: select_rsa_key_def example_jwks_def py_get_default_def py_iter_def
        py_get_def rsa_key_of_def)
  have e: "jwt_decode ?env ''tok'' ?key (ALGORITHMS ?env) (API_AUDIENCE ?env)
             (''https://'' @ AUTH0_DOMAIN ?env @ ''/'') = Inl JWTClaimsError"
    by (simp add: example_env_def py_get_def)
  from C8_claims_and_expiry [OF a b c d] e
  show "snd (verify_decode_jwt ?env ''tok'') =
          Inl (auth_error ''invalid_claims'' ''Incorrect claims.'' 401)"
    by blast
next
  let ?env = "example_env\<lparr>jwt_decode := (\<lambda>token key algorithms audience issuer.
                                         Inl ExpiredSignatureError)\<rparr>"
  let ?hdr = "[(''alg'', JStr ''RS256''), (''typ'', JStr ''JWT''), (''kid'', JStr ''k1'')]"
  let ?key = "[(''kty'', JStr ''RSA''), (''kid'', JStr ''k1''), (''use'', JStr ''sig''),
               (''n'', JStr ''n1''), (''e'', JStr ''AQAB'')]"
  have a: "AUTH0_DOMAIN ?env \<noteq> []" "API_AUDIENCE ?env \<noteq> []"
    by (simp_all add: example_env_def)
  have b: "requests_get_json ?env (''https://'' @ AUTH0_DOMAIN ?env @ ''/.well-known/jwks.json'')
             = Inr example_jwks"
    by (simp add: example_env_def)
  have c: "jwt_get_unverified_header ?env ''tok'' = Inr ?hdr"
    by (simp add: example_env_def)
  have d: "select_rsa_key example_jwks ?hdr = Inr ?key" "?key \<noteq> []"
    by (simp_all add: select_rsa_key_def example_jwks_def py_get_default_def py_iter_def
        py_get_def rsa_key_of_def)
  have e: "jwt_decode ?env ''tok'' ?key (ALGORITHMS ?env) (API_AUDIENCE ?env)
             (''https://'' @ AUTH0_DOMAIN ?env @ ''/'') = Inl ExpiredSignatureError"
    by simp
  from C8_claims_and_expiry [OF a b c d] e
  show "snd (verify_decode_jwt ?env ''tok'') =
          Inl (auth_error ''token_expired'' ''Token expired.'' 401)"
    by blast
qed

section \<open>Properties of the AuthGate\<close>

lemma invocations_External: "invocations (map External calls) = []"
  by (induction calls) auto

lemma invocations_append: "invocations (es @ es') = invocations es @ invocations es'"
  by (induction es rule: invocations.induct) auto

text \<open>
  C3: the wrapper runs the extractor, then the verifier on the extracted token, then
  the permission check on the decoded payload, then the operation. When a stage raises,
  the wrapper raises the same exception, the stages after it have not run (the events
  are those of the stages before it) and the operation has not been invoked. When all
  three succeed, the operation is invoked exactly once, after the verifier's library
  calls, with the decoded payload as its first positional argument before the original
  arguments, and the wrapper returns what the operation returns.
\<close>

theorem C3_requires_auth_order:
  "(get_token_auth_header (request_headers env) = Inl e \<longrightarrow>
      requires_auth permission f env args kwargs = ([], Inl e) \<and>
      invocations (fst (requires_auth permission f env args kwargs)) = []) \<and>
   (get_token_auth_header (request_headers env) = Inr token \<and>
    verify_decode_jwt env token = (calls, Inl e) \<longrightarrow>
      requires_auth permission f env args kwargs = (map External calls, Inl e) \<and>
      invocations (fst (requires_auth permission f env args kwargs)) = []) \<and>
   (get_token_auth_header (request_headers env) = Inr token \<and>
    verify_decode_jwt env token = (calls, Inr payload) \<and>
    check_permissions permission payload = Inl e \<longrightarrow>
      requires_auth permission f env args kwargs = (map External calls, Inl e) \<and>
      invocations (fst (requires_auth permission f env args kwargs)) = []) \<and>
   (get_token_auth_header (request_headers env) = Inr token \<and>
    verify_decode_jwt env token = (calls, Inr payload) \<and>
    check_permissions permission payload = Inr ok \<longrightarrow>
      requires_auth permission f env args kwargs =
        (map External calls @ [Invoked (Claims payload # map Positional args) kwargs],
         f (Claims payload # map Positional args) kwargs) \<and>
      invocations (fst (requires_auth permission f env args kwargs)) =
        [(Claims payload # map Positional args, kwargs)])"
  by (simp add: requires_auth_def invocations_External invocations_append)

theorem C3_witness:
  "requires_auth ''get:actors'' example_op (example_env\<lparr>request_headers := Map.empty\<rparr>)
     [7] [(''page'', JNum 1)] =
     ([], Inl (auth_error ''authorization_header_missing''
                 ''Authorization header is expected.'' 401)) \<and>
   requires_auth ''get:actors'' example_op (example_env\<lparr>API_AUDIENCE := ''''\<rparr>)
     [7] [(''page'', JNum 1)] =
     ([], Inl (auth_error ''configuration_error''
                 ''Missing Auth0 config (AUTH0_DOMAIN / API_AUDIENCE).'' 500)) \<and>
   requires_auth ''post:actors'' example_op example_env [7] [(''page'', JNum 1)] =
     ([External (HttpGet ''https://x/.well-known/jwks.json''),
       External (GetUnverifiedHeader ''tok''),
       External (Decode ''tok''
         [(''kty'', JStr ''RSA''), (''kid'', JStr ''k1''), (''use'', JStr ''sig''),
          (''n'', JStr ''n1''), (''e'', JStr ''AQAB'')]
         [''RS256''] ''api'' ''https://x/'')],
      Inl (auth_error ''unauthorized'' ''Permission not found.'' 403)) \<and>
   requires_auth ''get:actors'' example_op example_env [7] [(''page'', JNum 1)] =
     ([External (HttpGet ''https://x/.well-known/jwks.json''),
       External (GetUnverifiedHeader ''tok''),
       External (Decode ''tok''
         [(''kty'', JStr ''RSA''), (''kid'', JStr ''k1''), (''use'', JStr ''sig''),
          (''n'', JStr ''n1''), (''e'', JStr ''AQAB'')]
         [''RS256''] ''api'' ''https://x/''),
       Invoked [Claims example_claims, Positional 7] [(''page'', JNum 1)]],
      Inr (JDict [(''success'', JBool True)])) \<and>
   invocations (fst (requires_auth ''get:actors'' example_op example_env
                       [7] [(''page'', JNum 1)])) =
     [([Claims example_claims, Positional 7], [(''page'', JNum 1)])]"
proof -
  let ?key = "[(''kty'', JStr ''RSA''), (''kid'', JStr ''k1''), (''use'', JStr ''sig''),
               (''n'', JStr ''n1''), (''e'', JStr ''AQAB'')]"
  let ?calls = "[HttpGet ''https://x/.well-known/jwks.json'', GetUnverifiedHeader ''tok'',
                 Decode ''tok'' ?key [''RS256''] ''api'' ''https://x/'']"
  let ?kw = "[(''page'', JNum 1)]"
  have token: "get_token_auth_header (request_headers example_env) = Inr ''tok''"
    unfolding example_env_def by code_simp
  have verified: "verify_decode_jwt example_env ''tok'' = (?calls, Inr example_claims)"
    by (simp add: verify_decode_jwt_def example_env_def select_rsa_key_def example_jwks_def
        py_get_default_def py_iter_def py_get_def rsa_key_of_def decode_payload_def)
  have missing:
    "get_token_auth_header (request_headers (example_env\<lparr>request_headers := Map.empty\<rparr>)) =
       Inl (auth_error ''authorization_header_missing''
              ''Authorization header is expected.'' 401)"
    by (simp add: get_token_auth_header_def)
  have token': "get_token_auth_header (request_headers (example_env\<lparr>API_AUDIENCE := ''''\<rparr>))
                  = Inr ''tok''"
    using token by simp
  have config: "verify_decode_jwt (example_env\<lparr>API_AUDIENCE := ''''\<rparr>) ''tok'' =
      ([], Inl (auth_error ''configuration_error''
                  ''Missing Auth0 config (AUTH0_DOMAIN / API_AUDIENCE).'' 500))"
    by (simp add: verify_decode_jwt_def)
  have refused: "check_permissions ''post:actors'' example_claims =
      Inl (auth_error ''unauthorized'' ''Permission not found.'' 403)"
    by (simp add: check_permissions_def example_claims_def py_get_default_def py_in_def)
  have granted: "check_permissions ''get:actors'' example_claims = Inr True"
    by (simp add: check_permissions_def example_claims_def py_get_default_def py_in_def)
  have op: "example_op [Claims example_claims, Positional 7] ?kw =
              Inr (JDict [(''success'', JBool True)])"
    by (simp add: example_op_def)
  note r1 = C3_requires_auth_order
    [where env = "example_env\<lparr>request_headers := Map.empty\<rparr>" and permission = "''get:actors''"
       and f = example_op and args = "[7]" and kwargs = ?kw, THEN conjunct1, rule_format,
     OF missing, THEN conjunct1]
  note r2 = C3_requires_auth_order
    [where env = "example_env\<lparr>API_AUDIENCE := ''''\<rparr>" and permission = "''get:actors''"
       and f = example_op and args = "[7]" and kwargs = ?kw,
     THEN conjunct2, THEN conjunct1, rule_format, OF conjI, OF token' config, THEN conjunct1]
  note r3 = C3_requires_auth_order
    [where env = example_env and permission = "''post:actors''"
       and f = example_op and args = "[7]" and kwargs = ?kw,
     THEN conjunct2, THEN conjunct2, THEN conjunct1, rule_format,
     OF conjI [OF token conjI [OF verified refused]], THEN conjunct1]
  note r4 = C3_requires_auth_order
    [where env = example_env and permission = "''get:actors''"
       and f = example_op and args = "[7]" and kwargs = ?kw,
     THEN conjunct2, THEN conjunct2, THEN conjunct2, rule_format,
     OF conjI [OF token conjI [OF verified granted]]]
  from r1 r2 r3 r4 op show ?thesis
    by simp
qed

section \<open>Properties of the HTTP boundary\<close>

lemma table_members:
  "(''authorization_header_missing'', 401) \<in> set error_status_table"
  "(''invalid_header'', 401) \<in> set error_status_table"
  "(''invalid_claims'', 400) \<in> set error_status_table"
  "(''invalid_claims'', 401) \<in> set error_status_table"
  "(''unauthorized'', 403) \<in> set error_status_table"
  "(''token_expired'', 401) \<in> set error_status_table"
  "(''invalid_token'', 401) \<in> set error_status_table"
  "(''configuration_error'', 500) \<in> set error_status_table"
  by (simp_all add: error_status_table_def)

lemma in_table_auth_error:
  "(code, st) \<in> set error_status_table \<Longrightarrow> auth_error code d st = AuthError err st' \<Longrightarrow>
   in_table err st'"
  by (auto simp: auth_error_def in_table_def)

lemmas in_table_rules = table_members [THEN in_table_auth_error]

text \<open>Every \<open>AuthError\<close> that one of the three stages raises follows the table.\<close>

lemma get_token_auth_header_AuthError:
  "get_token_auth_header hs = Inl (AuthError err st) \<Longrightarrow> in_table err st"
  by (auto simp: get_token_auth_header_def Let_def split: option.splits if_splits
      intro: in_table_rules)

lemma check_permissions_AuthError:
  "check_permissions p payload = Inl (AuthError err st) \<Longrightarrow> in_table err st"
  by (auto simp: check_permissions_def split: json.splits if_splits intro: in_table_rules)

lemma decode_payload_AuthError:
  "decode_payload env token key = Inl (AuthError err st) \<Longrightarrow> in_table err st"
  by (auto simp: decode_payload_def split: sum.splits lib_exception.splits
      intro: in_table_rules)

lemma verify_decode_jwt_AuthError:
  "snd (verify_decode_jwt env token) = Inl (AuthError err st) \<Longrightarrow> in_table err st"
  unfolding verify_decode_jwt_def Let_def
  by (auto simp: select_rsa_key_not_AuthError split: sum.splits if_splits
      intro: in_table_rules dest: decode_payload_AuthError)

text \<open>
  C9 claims that the \<open>message\<close> of the response body is the human-readable description
  of the error. The handler stores the exception's whole \<open>error\<close> attribute there: for
  the error of a refused permission the message is the dictionary of code and
  description, not the description string.
\<close>

theorem C9_counterexample:
  "fst (handle_auth_error
          [(''code'', JStr ''unauthorized''), (''description'', JStr ''Permission not found.'')]
          403) =
     JDict [(''success'', JBool False), (''error'', JNum 403),
            (''message'', JDict [(''code'', JStr ''unauthorized''),
                                 (''description'', JStr ''Permission not found.'')])] \<and>
   JDict [(''code'', JStr ''unauthorized''), (''description'', JStr ''Permission not found.'')]
     \<noteq> JStr ''Permission not found.''"
  by (simp add: handle_auth_error_def)

text \<open>
  C9, as the code has it: every \<open>AuthError\<close> raised by the extractor, the verifier or the
  permission check carries a dictionary of a code and a description and a status that
  the error table lists for that code; \<open>handle_auth_error\<close> answers it with that status
  and the body \<open>{success: false, error: <status>, message: {code: <code>,
  description: <description>}}\<close>.
\<close>

theorem C9_handle_auth_error:
  assumes "get_token_auth_header hs = Inl (AuthError err st) \<or>
           snd (verify_decode_jwt env token) = Inl (AuthError err st) \<or>
           check_permissions permission payload = Inl (AuthError err st)"
  shows "\<exists>code description.
           err = [(''code'', JStr code), (''description'', JStr description)] \<and>
           (code, st) \<in> set error_status_table \<and>
           handle_auth_error err st =
             (JDict [(''success'', JBool False), (''error'', JNum (of_int st)),
                     (''message'', JDict [(''code'', JStr code),
                                          (''description'', JStr description)])],
              st)"
proof -
  from assms have "in_table err st"
    using get_token_auth_header_AuthError verify_decode_jwt_AuthError check_permissions_AuthError
    by blast
  then show ?thesis
    by (auto simp: in_table_def handle_auth_error_def)
qed

theorem C9_witness:
  "(''unauthorized'', 403) \<in> set error_status_table \<and>
   handle_auth_error
     [(''code'', JStr ''unauthorized''), (''description'', JStr ''Permission not found.'')] 403 =
     (JDict [(''success'', JBool False), (''error'', JNum 403),
             (''message'', JDict [(''code'', JStr ''unauthorized''),
                                  (''description'', JStr ''Permission not found.'')])],
      403)"
proof -
  let ?err = "[(''code'', JStr ''unauthorized''), (''description'', JStr ''Permission not found.'')]"
  have "check_permissions ''post:actors'' example_claims = Inl (AuthError ?err 403)"
    by (simp add: check_permissions_def example_claims_def py_get_default_def py_in_def
        auth_error_def)
  then have "get_token_auth_header Map.empty = Inl (AuthError ?err 403) \<or>
             snd (verify_decode_jwt example_env ''tok'') = Inl (AuthError ?err 403) \<or>
             check_permissions ''post:actors'' example_claims = Inl (AuthError ?err 403)"
    by blast
  from C9_handle_auth_error [OF this]
  obtain code description where
    "?err = [(''code'', JStr code), (''description'', JStr description)]"
    "(code, 403) \<in> set error_status_table"
    "handle_auth_error ?err 403 =
       (JDict [(''success'', JBool False), (''error'', JNum (of_int 403)),
               (''message'', JDict [(''code'', JStr code),
                                    (''description'', JStr description)])],
        403)"
    by blast
  then show ?thesis
    by simp
qed

end
